theory Spec2Isabelle
  imports Main
begin

section \<open>json_to_csv.py: values, exceptions and the outside world\<close>

text \<open>
  The script reads JSON files with polars, merges what it loaded, asks for a file name
  and writes a CSV. Everything it does itself is modelled below, line by line; what
  it calls in polars, \<open>os\<close> and the builtins is a field of the record \<open>env\<close>, so every
  theorem holds for whatever those calls return.

  Strings are lists of characters, one \<open>char\<close> per code point below 256.
\<close>

datatype cell = CNull | CBool bool | CInt int | CStr string

text \<open>A polars DataFrame: column names and rows of cells.\<close>

record dataframe =
  df_columns :: "string list"
  df_rows :: "cell list list"

text \<open>The Python objects the script handles. A DataFrame is an object of its own
  class: it is not a \<open>list\<close>.\<close>

datatype pyval =
    PyNone
  | PyBool bool
  | PyInt int
  | PyStr string
  | PyList "pyval list"
  | PyDict "(string \<times> pyval) list"
  | PyDataFrame dataframe

text \<open>
  Exceptions. \<open>FileNotFoundError\<close> and \<open>ValueError\<close> are the ones the script's own
  \<open>raise\<close> statements build, with their message; \<open>Raised c m\<close> is an exception of
  class \<open>c\<close> with message \<open>m\<close> coming out of a library or builtin call
  (\<open>open\<close>, \<open>pl.read_json\<close>, \<open>input\<close>, \<open>pl.DataFrame\<close>, \<open>write_csv\<close>).
  All of them are instances of Python's \<open>Exception\<close>; an interrupt delivered from
  outside the process (\<open>KeyboardInterrupt\<close>) is not part of the model.
\<close>

datatype exn = FileNotFoundError string | ValueError string | Raised string string

datatype libexn = LibExn string string

fun from_lib :: "libexn + 'a \<Rightarrow> exn + 'a" where
  "from_lib (Inl (LibExn c m)) = Inl (Raised c m)"
| "from_lib (Inr v) = Inr v"

text \<open>\<open>str(e)\<close>, as the handler of \<open>main\<close> formats it.\<close>

fun str_exn :: "exn \<Rightarrow> string" where
  "str_exn (FileNotFoundError m) = m"
| "str_exn (ValueError m) = m"
| "str_exn (Raised c m) = m"

text \<open>
  What one run of the script meets outside itself:
  \<^item> \<open>argv\<close>: \<open>sys.argv\<close>;
  \<^item> \<open>path_exists\<close>: \<open>os.path.exists\<close>;
  \<^item> \<open>read_json_file p\<close>: \<open>open(p, 'r')\<close> followed by \<open>pl.read_json\<close> on the
    open file: a DataFrame, or the exception either call raised;
  \<^item> \<open>input_line\<close>: the line \<open>input\<close> returns (without its newline), or the
    exception it raised (\<open>EOFError\<close>);
  \<^item> \<open>environ_HOME\<close>, \<open>pw_dir\<close>, \<open>getpwnam_dir\<close>: what \<open>os.path.expanduser\<close> consults:
    \<open>os.environ['HOME']\<close>, the password database entry of the current user and of a
    named user (\<open>None\<close> when there is none);
  \<^item> \<open>pl_DataFrame\<close>, \<open>shrink_dtype\<close>, \<open>write_csv\<close>: the three polars calls of the
    writer; \<open>write_csv df p\<close> is the text stored at path \<open>p\<close>, or the exception raised.
\<close>

record env =
  argv :: "string list"
  path_exists :: "string \<Rightarrow> bool"
  read_json_file :: "string \<Rightarrow> libexn + dataframe"
  input_line :: "libexn + string"
  environ_HOME :: "string option"
  pw_dir :: "string option"
  getpwnam_dir :: "string \<Rightarrow> string option"
  pl_DataFrame :: "pyval list \<Rightarrow> libexn + dataframe"
  shrink_dtype :: "dataframe \<Rightarrow> libexn + dataframe"
  write_csv :: "dataframe \<Rightarrow> string \<Rightarrow> libexn + string"

text \<open>The effects of a run: what was written to standard output, in order (one
  entry for each \<open>print\<close> and for the prompt of \<open>input\<close>), and the files written, in
  order, as pairs of path and content.\<close>

record world =
  stdout :: "string list"
  files_written :: "(string \<times> string) list"

definition print_line :: "string \<Rightarrow> world \<Rightarrow> world" where
  "print_line s w = w\<lparr>stdout := stdout w @ [s]\<rparr>"

section \<open>String and path operations\<close>

definition startswith :: "string \<Rightarrow> string \<Rightarrow> bool" where
  "startswith s prefix = (take (length prefix) s = prefix)"

definition endswith :: "string \<Rightarrow> string \<Rightarrow> bool" where
  "endswith s suffix =
     (length suffix \<le> length s \<and> drop (length s - length suffix) s = suffix)"

text \<open>The characters \<open>str.strip()\<close> removes, among the code points below 256:
  TAB to CR, FS to US, the space, NEL and the no-break space.\<close>

definition is_space :: "char \<Rightarrow> bool" where
  "is_space c =
     (let n = (of_char c :: nat)
      in (9 \<le> n \<and> n \<le> 13) \<or> (28 \<le> n \<and> n \<le> 32) \<or> n = 133 \<or> n = 160)"

definition strip :: "string \<Rightarrow> string" where
  "strip s = rev (dropWhile is_space (rev (dropWhile is_space s)))"

text \<open>\<open>os.path.join(a, b)\<close> of \<open>posixpath\<close>, for two components.\<close>

definition path_join :: "string \<Rightarrow> string \<Rightarrow> string" where
  "path_join a b =
     (if startswith b ''/'' then b
      else if a = [] \<or> endswith a ''/'' then a @ b
      else a @ ''/'' @ b)"

definition rstrip_sep :: "string \<Rightarrow> string" where
  "rstrip_sep s = rev (dropWhile (\<lambda>c. c = CHR ''/'') (rev s))"

text \<open>
  \<open>os.path.expanduser\<close> of \<open>posixpath\<close>: a path that does not start with \<open>~\<close> is
  returned as it is; otherwise the characters up to the first \<open>/\<close> name the user
  (none: the current user, from \<open>HOME\<close> or else the password database), and the
  user's home directory, without trailing separators, replaces them. A user that is
  not found leaves the path unchanged.
\<close>

definition expanduser :: "env \<Rightarrow> string \<Rightarrow> string" where
  "expanduser E path =
     (if \<not> startswith path ''~'' then path
      else
        let name = takeWhile (\<lambda>c. c \<noteq> CHR ''/'') (drop 1 path);
            i = 1 + length name;
            userhome =
              (if i = 1
               then (case environ_HOME E of Some h \<Rightarrow> Some h | None \<Rightarrow> pw_dir E)
               else getpwnam_dir E name)
        in case userhome of
             None \<Rightarrow> path
           | Some h \<Rightarrow>
               (let r = rstrip_sep h @ drop i path in if r = [] then ''/'' else r))"

definition is_abs :: "string \<Rightarrow> bool" where
  "is_abs p = startswith p ''/''"

section \<open>The script\<close>

text \<open>\<open>load_data\<close> (lines 8 to 21): the value returned is what \<open>pl.read_json\<close>
  returned, a DataFrame.\<close>

definition load_data :: "env \<Rightarrow> string \<Rightarrow> exn + pyval" where
  "load_data E file_path =
     (if \<not> path_exists E file_path
      then Inl (FileNotFoundError (''File not found: '' @ file_path))
      else case from_lib (read_json_file E file_path) of
             Inl e \<Rightarrow> Inl e
           | Inr df \<Rightarrow> Inr (PyDataFrame df))"

text \<open>\<open>save_dataframe_to_csv\<close> (lines 24 to 46).\<close>

definition save_dataframe_to_csv ::
  "env \<Rightarrow> pyval list \<Rightarrow> string \<Rightarrow> string \<Rightarrow> world \<Rightarrow> (exn + string) \<times> world" where
  "save_dataframe_to_csv E data filename output_dir w =
     (if \<not> endswith filename ''.csv''
      then (Inl (ValueError ''Filename must have a .csv extension.''), w)
      else
        let output_path = expanduser E (path_join output_dir filename)
        in case from_lib (pl_DataFrame E data) of
             Inl e \<Rightarrow> (Inl e, w)
           | Inr df0 \<Rightarrow>
               (case from_lib (shrink_dtype E df0) of
                  Inl e \<Rightarrow> (Inl e, w)
                | Inr df \<Rightarrow>
                    (case from_lib (write_csv E df output_path) of
                       Inl e \<Rightarrow> (Inl e, w)
                     | Inr content \<Rightarrow>
                         (Inr output_path,
                          w\<lparr>files_written := files_written w @ [(output_path, content)]\<rparr>))))"

text \<open>\<open>isinstance(data, list)\<close>, and the elements \<open>combined.extend(data)\<close> appends
  when \<open>data\<close> is a list.\<close>

fun isinstance_list :: "pyval \<Rightarrow> bool" where
  "isinstance_list (PyList xs) = True"
| "isinstance_list v = False"

fun list_items :: "pyval \<Rightarrow> pyval list" where
  "list_items (PyList xs) = xs"
| "list_items v = []"

text \<open>The \<open>for\<close> loop of \<open>main\<close> (lines 62 to 67), with \<open>combined\<close> as accumulator.\<close>

fun load_all :: "env \<Rightarrow> string list \<Rightarrow> pyval list \<Rightarrow> world \<Rightarrow> (exn + pyval list) \<times> world" where
  "load_all E [] combined w = (Inr combined, w)"
| "load_all E (file_path # rest) combined w =
     (let w1 = print_line (''Loading data from: '' @ file_path) w
      in case load_data E file_path of
           Inl e \<Rightarrow> (Inl e, w1)
         | Inr data \<Rightarrow>
             (if \<not> isinstance_list data
              then (Inl (ValueError (''File '' @ file_path @
                      '' does not contain a list of dictionaries.'')), w1)
              else load_all E rest (combined @ list_items data) w1))"

text \<open>Lines 69 to 76: the prompt, the check of the trimmed answer, the writer and
  the success message.\<close>

definition prompt_and_save :: "env \<Rightarrow> pyval list \<Rightarrow> world \<Rightarrow> (exn + unit) \<times> world" where
  "prompt_and_save E combined w =
     (let w1 = print_line ''Enter the filename (e.g. 'data.csv'): '' w
      in case from_lib (input_line E) of
           Inl e \<Rightarrow> (Inl e, w1)
         | Inr line \<Rightarrow>
             (let filename = strip line
              in if filename = []
                 then (Inl (ValueError ''Filename cannot be empty.''), w1)
                 else (case save_dataframe_to_csv E combined filename ''~/Documents'' w1 of
                         (Inl e, w2) \<Rightarrow> (Inl e, w2)
                       | (Inr save_path, w2) \<Rightarrow>
                           (Inr (), print_line (''DataFrame successfully saved to: '' @ save_path) w2))))"

text \<open>The body of the \<open>try\<close> (lines 59 to 76).\<close>

definition try_body :: "env \<Rightarrow> world \<Rightarrow> (exn + unit) \<times> world" where
  "try_body E w =
     (case load_all E (drop 1 (argv E)) [] w of
        (Inl e, w1) \<Rightarrow> (Inl e, w1)
      | (Inr combined, w1) \<Rightarrow> prompt_and_save E combined w1)"

text \<open>\<open>except Exception as e\<close> (lines 78 and 79).\<close>

definition except_handler :: "(exn + unit) \<times> world \<Rightarrow> world" where
  "except_handler r =
     (case r of
        (Inl e, w) \<Rightarrow> print_line (''An error occurred: '' @ str_exn e) w
      | (Inr u, w) \<Rightarrow> w)"

text \<open>How a call of \<open>main\<close> ends: it returns, or \<open>sys.exit(n)\<close> ends the process.\<close>

datatype outcome = Returned | SystemExit int

definition main :: "env \<Rightarrow> world \<Rightarrow> outcome \<times> world" where
  "main E w =
     (if length (argv E) < 2
      then (SystemExit 1,
            print_line ''Usage: python script.py <file1.json> <file2.json> ... <file.json>'' w)
      else (Returned, except_handler (try_body E w)))"

text \<open>The exit status of the process that runs the script.\<close>

fun exit_status :: "outcome \<Rightarrow> int" where
  "exit_status Returned = 0"
| "exit_status (SystemExit n) = n"

section \<open>A concrete run\<close>

text \<open>
  The example of the specification: \<open>a.json\<close> holds \<open>[{"x":1,"y":"a"}]\<close> and \<open>b.json\<close>
  holds \<open>[{"x":2,"y":"b"}]\<close>; \<open>bad.json\<close> exists and is not valid JSON; no other path
  exists. \<open>HOME\<close> is \<open>/home/user\<close>. The frames are what polars builds from these
  files, \<open>records_ab\<close> is the two objects as Python dictionaries, and \<open>csv_ab\<close> the CSV
  text of both rows.
\<close>

definition frame_a :: dataframe where
  "frame_a = \<lparr>df_columns = [''x'', ''y''], df_rows = [[CInt 1, CStr ''a'']]\<rparr>"

definition frame_b :: dataframe where
  "frame_b = \<lparr>df_columns = [''x'', ''y''], df_rows = [[CInt 2, CStr ''b'']]\<rparr>"

definition frame_ab :: dataframe where
  "frame_ab = \<lparr>df_columns = [''x'', ''y''], df_rows = [[CInt 1, CStr ''a''], [CInt 2, CStr ''b'']]\<rparr>"

definition records_ab :: "pyval list" where
  "records_ab = [PyDict [(''x'', PyInt 1), (''y'', PyStr ''a'')], PyDict [(''x'', PyInt 2), (''y'', PyStr ''b'')]]"

definition csv_ab :: string where
  "csv_ab = ''x,y'' @ [CHR 0x0A] @ ''1,a'' @ [CHR 0x0A] @ ''2,b'' @ [CHR 0x0A]"

definition example_env :: "string list \<Rightarrow> string \<Rightarrow> env" where
  "example_env args typed =
     \<lparr>argv = args,
      path_exists = (\<lambda>p. p = ''a.json'' \<or> p = ''b.json'' \<or> p = ''bad.json''),
      read_json_file = (\<lambda>p. if p = ''a.json'' then Inr frame_a
                             else if p = ''b.json'' then Inr frame_b
                             else Inl (LibExn ''ComputeError'' ''could not parse JSON'')),
      input_line = Inr typed,
      environ_HOME = Some ''/home/user'',
      pw_dir = None,
      getpwnam_dir = (\<lambda>u. None),
      pl_DataFrame = (\<lambda>d. if d = records_ab then Inr frame_ab
                           else Inl (LibExn ''TypeError'' ''unexpected data'')),
      shrink_dtype = (\<lambda>df. Inr df),
      write_csv = (\<lambda>df p. if df = frame_ab then Inr csv_ab
                           else Inl (LibExn ''ComputeError'' ''unexpected frame''))\<rparr>"

definition world0 :: world where
  "world0 = \<lparr>stdout = [], files_written = []\<rparr>"

section \<open>Auxiliary facts\<close>

lemma endswith_iff: "endswith s suffix \<longleftrightarrow> (\<exists>p. s = p @ suffix)"
proof
  assume "endswith s suffix"
  then have "s = take (length s - length suffix) s @ suffix"
    by (metis append_take_drop_id endswith_def)
  then show "\<exists>p. s = p @ suffix" ..
next
  assume "\<exists>p. s = p @ suffix"
  then show "endswith s suffix" by (auto simp: endswith_def)
qed

lemma from_lib_not_own:
  "from_lib r \<noteq> Inl (ValueError m)" "from_lib r \<noteq> Inl (FileNotFoundError m)"
  by (cases r rule: from_lib.cases; simp)+

lemma load_data_not_list: "load_data E f = Inr v \<Longrightarrow> \<not> isinstance_list v"
  by (auto simp: load_data_def split: if_splits sum.splits)

lemma load_all_first:
  "\<exists>e. load_all E (f # rest) combined w = (Inl e, print_line (''Loading data from: '' @ f) w)"
  by (cases "load_data E f") (auto simp: Let_def dest: load_data_not_list)

lemma load_all_files_written:
  "files_written (snd (load_all E fs combined w)) = files_written w"
  by (induction fs arbitrary: combined w)
     (auto simp: Let_def print_line_def split: sum.splits)

lemma drop1_argv: "2 \<le> length xs \<Longrightarrow> drop 1 xs = xs ! 1 # drop 2 xs"
  by (cases xs; cases "tl xs"; simp)


text \<open>The definitions a concrete run unfolds.\<close>

lemmas run_defs = main_def try_body_def except_handler_def prompt_and_save_def
  save_dataframe_to_csv_def load_data_def print_line_def Let_def example_env_def world0_def
  frame_a_def frame_b_def frame_ab_def records_ab_def csv_ab_def endswith_def startswith_def
  path_join_def expanduser_def rstrip_sep_def strip_def is_space_def is_abs_def

section \<open>What the script does\<close>

text \<open>
  C1. The specification promises one CSV row per element of the input arrays, in
  argument order. The run below is \<open>main\<close> on one existing file that holds a valid
  array of one flat object: \<open>load_data\<close> hands back the DataFrame of \<open>pl.read_json\<close>,
  the \<open>isinstance(data, list)\<close> test fails, and the run ends with the error message
  and no file written.
\<close>

theorem main_single_valid_file_writes_nothing:
  "main (example_env [''json_to_csv.py'', ''a.json''] ''out.csv'') world0 =
     (Returned,
      \<lparr>stdout = [''Loading data from: a.json'',
                 ''An error occurred: File a.json does not contain a list of dictionaries.''],
       files_written = []\<rparr>)"
  by (simp add: run_defs)

text \<open>
  C3. The example of the specification, \<open>a.json\<close> then \<open>b.json\<close>, with \<open>out.csv\<close>
  typed at the prompt: the run stops at \<open>a.json\<close> with the same error; \<open>b.json\<close> is
  never loaded, the prompt never shown and no file written.
\<close>

theorem main_example_two_files_writes_nothing:
  "main (example_env [''json_to_csv.py'', ''a.json'', ''b.json''] ''out.csv'') world0 =
     (Returned,
      \<lparr>stdout = [''Loading data from: a.json'',
                 ''An error occurred: File a.json does not contain a list of dictionaries.''],
       files_written = []\<rparr>)"
  by (simp add: run_defs)

text \<open>
  C2. With at least one file argument, \<open>main\<close> returns after exactly two lines of
  output, the progress line of the first file and \<open>An error occurred: ...\<close>; it
  writes no file. Whenever the first file exists and \<open>pl.read_json\<close> succeeds on it,
  \<open>load_data\<close> returns a DataFrame, which is not a list, and the message is that of the
  \<open>ValueError\<close> of line 66.
\<close>

theorem main_never_reaches_writer:
  assumes "2 \<le> length (argv E)"
  shows "fst (main E w) = Returned
       \<and> files_written (snd (main E w)) = files_written w
       \<and> (\<exists>msg. stdout (snd (main E w)) =
             stdout w @ [''Loading data from: '' @ argv E ! 1, ''An error occurred: '' @ msg])
       \<and> (\<forall>df. path_exists E (argv E ! 1) \<and> read_json_file E (argv E ! 1) = Inr df \<longrightarrow>
             load_data E (argv E ! 1) = Inr (PyDataFrame df)
           \<and> \<not> isinstance_list (PyDataFrame df)
           \<and> stdout (snd (main E w)) =
               stdout w @ [''Loading data from: '' @ argv E ! 1,
                 ''An error occurred: File '' @ argv E ! 1 @
                 '' does not contain a list of dictionaries.''])"
proof -
  let ?f = "argv E ! 1"
  have d: "drop 1 (argv E) = ?f # drop 2 (argv E)"
    using assms by (rule drop1_argv)
  obtain e where e: "load_all E (drop 1 (argv E)) [] w =
      (Inl e, print_line (''Loading data from: '' @ ?f) w)"
    using load_all_first [of E ?f "drop 2 (argv E)" "[]" w] d by auto
  have m: "main E w = (Returned, print_line (''An error occurred: '' @ str_exn e)
      (print_line (''Loading data from: '' @ ?f) w))"
    using assms e by (simp add: main_def try_body_def except_handler_def)
  have 1: "fst (main E w) = Returned" using m by simp
  have 2: "files_written (snd (main E w)) = files_written w"
    using m by (simp add: print_line_def)
  have 3: "\<exists>msg. stdout (snd (main E w)) =
      stdout w @ [''Loading data from: '' @ ?f, ''An error occurred: '' @ msg]"
    using m by (simp add: print_line_def)
  have 4: "load_data E ?f = Inr (PyDataFrame df)
           \<and> \<not> isinstance_list (PyDataFrame df)
           \<and> stdout (snd (main E w)) =
               stdout w @ [''Loading data from: '' @ ?f,
                 ''An error occurred: File '' @ ?f @
                 '' does not contain a list of dictionaries.'']"
    if "path_exists E ?f \<and> read_json_file E ?f = Inr df" for df
  proof -
    have l: "load_data E ?f = Inr (PyDataFrame df)"
      using that by (simp add: load_data_def)
    have "load_all E (drop 1 (argv E)) [] w =
        (Inl (ValueError (''File '' @ ?f @ '' does not contain a list of dictionaries.'')),
         print_line (''Loading data from: '' @ ?f) w)"
      using l unfolding d by (simp add: Let_def)
    then have "str_exn e = ''File '' @ ?f @ '' does not contain a list of dictionaries.''"
      using e by auto
    then show ?thesis using l m by (simp add: print_line_def)
  qed
  show ?thesis using 1 2 3 4 by blast
qed

text \<open>
  The run of the example, through the theorem.
\<close>

theorem main_never_reaches_writer_witness:
  "2 \<le> length (argv (example_env [''json_to_csv.py'', ''a.json'', ''b.json''] ''out.csv''))
   \<and> path_exists (example_env [''json_to_csv.py'', ''a.json'', ''b.json''] ''out.csv'') ''a.json''
   \<and> read_json_file (example_env [''json_to_csv.py'', ''a.json'', ''b.json''] ''out.csv'') ''a.json''
        = Inr frame_a
   \<and> fst (main (example_env [''json_to_csv.py'', ''a.json'', ''b.json''] ''out.csv'') world0) = Returned
   \<and> files_written (snd (main (example_env [''json_to_csv.py'', ''a.json'', ''b.json''] ''out.csv'') world0)) = []
   \<and> stdout (snd (main (example_env [''json_to_csv.py'', ''a.json'', ''b.json''] ''out.csv'') world0)) =
        [''Loading data from: a.json'',
         ''An error occurred: File a.json does not contain a list of dictionaries.'']"
proof -
  let ?E = "example_env [''json_to_csv.py'', ''a.json'', ''b.json''] ''out.csv''"
  have h: "2 \<le> length (argv ?E)" by (simp add: example_env_def)
  have p: "path_exists ?E (argv ?E ! 1) \<and> read_json_file ?E (argv ?E ! 1) = Inr frame_a"
    by (simp add: example_env_def)
  show ?thesis
    using main_never_reaches_writer [OF h, of world0] p h
    by (simp add: example_env_def world0_def)
qed


text \<open>
  A path that does not exist, where the loop reaches it: \<open>load_data\<close> raises
  \<open>FileNotFoundError\<close>, and when that path is the first argument \<open>main\<close> reports it and
  returns with nothing written. Whenever the loop fails, the body of the \<open>try\<close> ends
  with that error, and neither the body nor the handler writes a file.
\<close>

lemma first_path_missing_reported:
  "(\<not> path_exists E p \<longrightarrow>
      load_data E p = Inl (FileNotFoundError (''File not found: '' @ p)))
   \<and> (2 \<le> length (argv E) \<and> \<not> path_exists E (argv E ! 1) \<longrightarrow>
        main E w =
          (Returned,
           w\<lparr>stdout := stdout w @ [''Loading data from: '' @ argv E ! 1,
                ''An error occurred: File not found: '' @ argv E ! 1]\<rparr>))
   \<and> (\<forall>e. fst (load_all E (drop 1 (argv E)) [] w) = Inl e \<longrightarrow>
        try_body E w = (Inl e, snd (load_all E (drop 1 (argv E)) [] w))
      \<and> files_written (snd (try_body E w)) = files_written w
      \<and> files_written (except_handler (try_body E w)) = files_written w)"
proof -
  have 1: "load_data E p = Inl (FileNotFoundError (''File not found: '' @ p))"
    if "\<not> path_exists E p" for p
    using that by (simp add: load_data_def)
  have 2: "main E w =
          (Returned,
           w\<lparr>stdout := stdout w @ [''Loading data from: '' @ argv E ! 1,
                ''An error occurred: File not found: '' @ argv E ! 1]\<rparr>)"
    if h: "2 \<le> length (argv E) \<and> \<not> path_exists E (argv E ! 1)"
  proof -
    have "2 \<le> length (argv E)" using h by blast
    then have d: "drop 1 (argv E) = argv E ! 1 # drop 2 (argv E)"
      by (rule drop1_argv)
    have "load_all E (drop 1 (argv E)) [] w =
        (Inl (FileNotFoundError (''File not found: '' @ argv E ! 1)),
         print_line (''Loading data from: '' @ argv E ! 1) w)"
      unfolding d using 1 [of "argv E ! 1"] h by (simp add: Let_def)
    then show ?thesis
      using h by (simp add: main_def try_body_def except_handler_def print_line_def)
  qed
  have 3: "try_body E w = (Inl e, snd (load_all E (drop 1 (argv E)) [] w))
      \<and> files_written (snd (try_body E w)) = files_written w
      \<and> files_written (except_handler (try_body E w)) = files_written w"
    if fl: "fst (load_all E (drop 1 (argv E)) [] w) = Inl e" for e
  proof -
    obtain w1 where l: "load_all E (drop 1 (argv E)) [] w = (Inl e, w1)"
      using fl by (cases "load_all E (drop 1 (argv E)) [] w") auto
    have t: "try_body E w = (Inl e, w1)" using l by (simp add: try_body_def)
    have "files_written w1 = files_written w"
      using load_all_files_written [of E "drop 1 (argv E)" "[]" w] l by simp
    then show ?thesis using l t by (simp add: except_handler_def print_line_def)
  qed
  show ?thesis using 1 2 3 by blast
qed

text \<open>
  C4. A path that does not exist is to be reported as not found. In the run below
  \<open>a.json\<close> holds a valid array and comes first, \<open>missing.json\<close> does not exist and
  comes second: the run stops at \<open>a.json\<close> with the \<open>ValueError\<close> of line 66, for
  \<open>load_data\<close> handed back a DataFrame; \<open>load_data\<close> is never called on
  \<open>missing.json\<close>, and no \<open>File not found\<close> line is printed. No file is written.
\<close>

theorem main_valid_then_missing_path_not_reported:
  "\<not> path_exists (example_env [''json_to_csv.py'', ''a.json'', ''missing.json''] ''out.csv'')
        ''missing.json''
   \<and> argv (example_env [''json_to_csv.py'', ''a.json'', ''missing.json''] ''out.csv'') ! 2
        = ''missing.json''
   \<and> main (example_env [''json_to_csv.py'', ''a.json'', ''missing.json''] ''out.csv'') world0 =
       (Returned,
        \<lparr>stdout = [''Loading data from: a.json'',
                   ''An error occurred: File a.json does not contain a list of dictionaries.''],
         files_written = []\<rparr>)"
  by (simp add: run_defs)

text \<open>
  C5. The exit status is 1 when there is no file argument, and then the usage line is
  all that happened; it is 0 otherwise, and an exception raised in the body of the
  \<open>try\<close> only adds the line \<open>An error occurred: ...\<close> to the output.
\<close>

theorem exit_status_of_main:
  "exit_status (fst (main E w)) = (if length (argv E) < 2 then 1 else 0)
   \<and> (length (argv E) < 2 \<longrightarrow>
        main E w =
          (SystemExit 1,
           w\<lparr>stdout := stdout w @
              [''Usage: python script.py <file1.json> <file2.json> ... <file.json>'']\<rparr>))
   \<and> (\<forall>e w1. 2 \<le> length (argv E) \<and> try_body E w = (Inl e, w1) \<longrightarrow>
        main E w = (Returned, w1\<lparr>stdout := stdout w1 @ [''An error occurred: '' @ str_exn e]\<rparr>)
      \<and> exit_status (fst (main E w)) = 0)"
  by (simp add: main_def except_handler_def print_line_def)

text \<open>
  Both branches, through the theorem: no argument, and a run that fails.
\<close>

theorem exit_status_of_main_witness:
  "length (argv (example_env [''json_to_csv.py''] [])) < 2
   \<and> exit_status (fst (main (example_env [''json_to_csv.py''] []) world0)) = 1
   \<and> main (example_env [''json_to_csv.py''] []) world0 =
        (SystemExit 1,
         \<lparr>stdout = [''Usage: python script.py <file1.json> <file2.json> ... <file.json>''],
          files_written = []\<rparr>)
   \<and> 2 \<le> length (argv (example_env [''json_to_csv.py'', ''missing.json''] []))
   \<and> try_body (example_env [''json_to_csv.py'', ''missing.json''] []) world0 =
        (Inl (FileNotFoundError ''File not found: missing.json''),
         \<lparr>stdout = [''Loading data from: missing.json''], files_written = []\<rparr>)
   \<and> exit_status (fst (main (example_env [''json_to_csv.py'', ''missing.json''] []) world0)) = 0"
proof -
  let ?E0 = "example_env [''json_to_csv.py''] []"
  let ?E1 = "example_env [''json_to_csv.py'', ''missing.json''] []"
  have a: "length (argv ?E0) < 2" by (simp add: example_env_def)
  have b: "2 \<le> length (argv ?E1)" by (simp add: example_env_def)
  have c: "try_body ?E1 world0 =
        (Inl (FileNotFoundError ''File not found: missing.json''),
         \<lparr>stdout = [''Loading data from: missing.json''], files_written = []\<rparr>)"
    by (simp add: run_defs)
  have u: "main ?E0 world0 =
        (SystemExit 1,
         \<lparr>stdout = [''Usage: python script.py <file1.json> <file2.json> ... <file.json>''],
          files_written = []\<rparr>)"
    using exit_status_of_main [of ?E0 world0] a by (simp add: world0_def)
  have s0: "exit_status (fst (main ?E0 world0)) = 1"
    using exit_status_of_main [of ?E0 world0] a by simp
  have s1: "exit_status (fst (main ?E1 world0)) = 0"
    using exit_status_of_main [of ?E1 world0] b c by simp
  show ?thesis using a b c u s0 s1 by simp
qed


text \<open>
  C6. A file name that does not end in \<open>.csv\<close> makes \<open>save_dataframe_to_csv\<close> raise
  the \<open>ValueError\<close> of line 37 with the world unchanged: no library call is made and no
  file is written.
\<close>

theorem save_rejects_other_extension:
  assumes "\<not> (\<exists>stem. filename = stem @ ''.csv'')"
  shows "save_dataframe_to_csv E data filename output_dir w =
           (Inl (ValueError ''Filename must have a .csv extension.''), w)"
  using assms by (simp add: save_dataframe_to_csv_def endswith_iff)

text \<open>
  The file name \<open>data.txt\<close>, through the theorem.
\<close>

theorem save_rejects_other_extension_witness:
  "\<not> (\<exists>stem. ''data.txt'' = stem @ ''.csv'')
   \<and> save_dataframe_to_csv (example_env [] []) records_ab ''data.txt'' ''~/Documents'' world0 =
        (Inl (ValueError ''Filename must have a .csv extension.''), world0)"
proof -
  have h: "\<not> (\<exists>stem. ''data.txt'' = stem @ ''.csv'')"
    unfolding endswith_iff [symmetric] by (simp add: endswith_def)
  show ?thesis
    using h save_rejects_other_extension [OF h, of "example_env [] []" records_ab "''~/Documents''" world0]
    by simp
qed

text \<open>
  C7. Lines 69 to 76, from any merged data: when the line read at the prompt is empty
  after \<open>strip\<close>, the \<open>ValueError\<close> of line 72 is raised, the handler prints it, and
  no file is written; the result does not depend on the writer.
\<close>

theorem empty_filename_rejected:
  assumes "input_line E = Inr line" and "strip line = []"
  shows "prompt_and_save E combined w =
           (Inl (ValueError ''Filename cannot be empty.''),
            w\<lparr>stdout := stdout w @ [''Enter the filename (e.g. 'data.csv'): '']\<rparr>)
       \<and> except_handler (prompt_and_save E combined w) =
           w\<lparr>stdout := stdout w @ [''Enter the filename (e.g. 'data.csv'): '',
                ''An error occurred: Filename cannot be empty.'']\<rparr>
       \<and> files_written (except_handler (prompt_and_save E combined w)) = files_written w"
  using assms by (simp add: prompt_and_save_def except_handler_def print_line_def)

text \<open>
  Two spaces typed at the prompt, through the theorem.
\<close>

theorem empty_filename_rejected_witness:
  "input_line (example_env [''json_to_csv.py'', ''a.json''] ''  '') = Inr ''  ''
   \<and> strip ''  '' = []
   \<and> except_handler (prompt_and_save (example_env [''json_to_csv.py'', ''a.json''] ''  '')
        records_ab world0) =
        \<lparr>stdout = [''Enter the filename (e.g. 'data.csv'): '',
                   ''An error occurred: Filename cannot be empty.''],
         files_written = []\<rparr>"
proof -
  let ?E = "example_env [''json_to_csv.py'', ''a.json''] ''  ''"
  have a: "input_line ?E = Inr ''  ''" by (simp add: example_env_def)
  have b: "strip ''  '' = []" by (simp add: strip_def is_space_def)
  have "except_handler (prompt_and_save ?E records_ab world0) =
      world0\<lparr>stdout := stdout world0 @ [''Enter the filename (e.g. 'data.csv'): '',
                ''An error occurred: Filename cannot be empty.'']\<rparr>"
    using empty_filename_rejected [OF a b, of records_ab world0] by blast
  then have c: "except_handler (prompt_and_save ?E records_ab world0) =
        \<lparr>stdout = [''Enter the filename (e.g. 'data.csv'): '',
                   ''An error occurred: Filename cannot be empty.''],
         files_written = []\<rparr>"
    by (simp add: world0_def)
  show ?thesis using a b c by blast
qed

lemma last_dropWhile:
  "dropWhile P xs \<noteq> [] \<Longrightarrow> last (dropWhile P xs) = last xs"
  by (induction xs) (auto split: if_splits)

lemma rstrip_sep_abs:
  assumes "is_abs h"
  shows "is_abs (rstrip_sep h @ CHR ''/'' # t)"
proof (cases "rstrip_sep h = []")
  case True
  then show ?thesis by (simp add: is_abs_def startswith_def)
next
  case False
  obtain h' where h: "h = CHR ''/'' # h'"
    using assms by (cases h) (auto simp: is_abs_def startswith_def)
  have n: "dropWhile (\<lambda>c. c = CHR ''/'') (rev h) \<noteq> []"
    using False by (simp add: rstrip_sep_def)
  have "hd (rstrip_sep h) = last (dropWhile (\<lambda>c. c = CHR ''/'') (rev h))"
    using n by (simp add: rstrip_sep_def hd_rev)
  also have "\<dots> = last (rev h)" using n by (rule last_dropWhile)
  also have "\<dots> = CHR ''/''" by (simp add: h)
  finally have "hd (rstrip_sep h) = CHR ''/''" .
  then show ?thesis using False
    by (cases "rstrip_sep h") (simp_all add: is_abs_def startswith_def)
qed

lemma expanduser_abs: "is_abs p \<Longrightarrow> expanduser E p = p"
  by (cases p) (auto simp: expanduser_def is_abs_def startswith_def)

lemma path_join_abs: "is_abs a \<Longrightarrow> is_abs (path_join a b)"
  by (cases a) (auto simp: path_join_def is_abs_def startswith_def)

lemma expand_default_dir:
  assumes "\<not> is_abs filename" and "environ_HOME E = Some h"
  shows "expanduser E (path_join ''~/Documents'' filename) =
           rstrip_sep h @ ''/Documents/'' @ filename"
  using assms
  by (simp add: path_join_def expanduser_def is_abs_def startswith_def endswith_def Let_def)

lemma relative_join:
  assumes "\<not> is_abs a" and "\<not> startswith a ''~''"
    and "\<not> is_abs b" and "\<not> startswith b ''~''"
  shows "expanduser E (path_join a b) = path_join a b \<and> \<not> is_abs (path_join a b)"
  using assms
  by (cases a; cases b)
     (simp_all add: path_join_def expanduser_def is_abs_def startswith_def endswith_def)

text \<open>
  C8, as the code has it. For a file name ending in \<open>.csv\<close>, when the three polars
  calls succeed, the writer stores the CSV at \<open>expanduser(join(output_dir, filename))\<close>
  and returns that path. The path is absolute when \<open>output_dir\<close> is; for the default
  \<open>~/Documents\<close>, a file name that does not start with \<open>/\<close> and \<open>HOME\<close> set to \<open>h\<close>, it
  is \<open>h\<close> without its trailing separators followed by \<open>/Documents/\<close> and the file
  name, which is absolute when \<open>h\<close> is. When neither \<open>output_dir\<close> nor the file name
  starts with \<open>/\<close> or \<open>~\<close>, the path is the plain join of the two and is not absolute.
\<close>

theorem save_returns_expanded_join:
  assumes "\<exists>stem. filename = stem @ ''.csv''"
    and "pl_DataFrame E data = Inr df0"
    and "shrink_dtype E df0 = Inr df"
    and "write_csv E df (expanduser E (path_join output_dir filename)) = Inr content"
  shows "save_dataframe_to_csv E data filename output_dir w =
           (Inr (expanduser E (path_join output_dir filename)),
            w\<lparr>files_written := files_written w @
                 [(expanduser E (path_join output_dir filename), content)]\<rparr>)
       \<and> (is_abs output_dir \<longrightarrow> is_abs (expanduser E (path_join output_dir filename)))
       \<and> (\<forall>h. output_dir = ''~/Documents'' \<and> \<not> is_abs filename \<and> environ_HOME E = Some h \<longrightarrow>
             expanduser E (path_join output_dir filename) =
               rstrip_sep h @ ''/Documents/'' @ filename
           \<and> (is_abs h \<longrightarrow> is_abs (expanduser E (path_join output_dir filename))))
       \<and> (\<not> is_abs output_dir \<and> \<not> startswith output_dir ''~''
            \<and> \<not> is_abs filename \<and> \<not> startswith filename ''~'' \<longrightarrow>
             expanduser E (path_join output_dir filename) = path_join output_dir filename
           \<and> \<not> is_abs (expanduser E (path_join output_dir filename)))"
proof -
  have 1: "save_dataframe_to_csv E data filename output_dir w =
           (Inr (expanduser E (path_join output_dir filename)),
            w\<lparr>files_written := files_written w @
                 [(expanduser E (path_join output_dir filename), content)]\<rparr>)"
    using assms by (simp add: save_dataframe_to_csv_def endswith_iff Let_def)
  have 2: "is_abs (expanduser E (path_join output_dir filename))" if "is_abs output_dir"
    using that by (simp add: expanduser_abs path_join_abs)
  have 3: "expanduser E (path_join output_dir filename) =
               rstrip_sep h @ ''/Documents/'' @ filename
           \<and> (is_abs h \<longrightarrow> is_abs (expanduser E (path_join output_dir filename)))"
    if "output_dir = ''~/Documents'' \<and> \<not> is_abs filename \<and> environ_HOME E = Some h" for h
  proof -
    have e: "expanduser E (path_join output_dir filename) =
               rstrip_sep h @ ''/Documents/'' @ filename"
      using that expand_default_dir [of filename E h] by simp
    have "is_abs (rstrip_sep h @ ''/Documents/'' @ filename)" if "is_abs h"
      using rstrip_sep_abs [OF that] by simp
    then show ?thesis using e by simp
  qed
  have 4: "expanduser E (path_join output_dir filename) = path_join output_dir filename
           \<and> \<not> is_abs (expanduser E (path_join output_dir filename))"
    if "\<not> is_abs output_dir \<and> \<not> startswith output_dir ''~''
            \<and> \<not> is_abs filename \<and> \<not> startswith filename ''~''"
    using that relative_join [of output_dir filename E] by simp
  show ?thesis using 1 2 3 4 by blast
qed

text \<open>
  The default directory with \<open>HOME = /home/user\<close>, and the relative directory
  \<open>reports\<close>, through the theorem.
\<close>

theorem save_returns_expanded_join_witness:
  "(\<exists>stem. ''out.csv'' = stem @ ''.csv'')
   \<and> pl_DataFrame (example_env [] []) records_ab = Inr frame_ab
   \<and> shrink_dtype (example_env [] []) frame_ab = Inr frame_ab
   \<and> write_csv (example_env [] []) frame_ab ''/home/user/Documents/out.csv'' = Inr csv_ab
   \<and> environ_HOME (example_env [] []) = Some ''/home/user''
   \<and> is_abs ''/home/user''
   \<and> \<not> is_abs ''out.csv''
   \<and> save_dataframe_to_csv (example_env [] []) records_ab ''out.csv'' ''~/Documents'' world0 =
        (Inr ''/home/user/Documents/out.csv'',
         \<lparr>stdout = [], files_written = [(''/home/user/Documents/out.csv'', csv_ab)]\<rparr>)
   \<and> is_abs ''/home/user/Documents/out.csv''
   \<and> \<not> is_abs ''reports'' \<and> \<not> startswith ''reports'' ''~''
   \<and> \<not> startswith ''out.csv'' ''~''
   \<and> write_csv (example_env [] []) frame_ab ''reports/out.csv'' = Inr csv_ab
   \<and> save_dataframe_to_csv (example_env [] []) records_ab ''out.csv'' ''reports'' world0 =
        (Inr ''reports/out.csv'',
         \<lparr>stdout = [], files_written = [(''reports/out.csv'', csv_ab)]\<rparr>)
   \<and> \<not> is_abs (expanduser (example_env [] []) (path_join ''reports'' ''out.csv''))"
proof -
  let ?E = "example_env [] []"
  have a: "\<exists>stem. ''out.csv'' = stem @ ''.csv''"
    unfolding endswith_iff [symmetric] by (simp add: endswith_def)
  have b: "pl_DataFrame ?E records_ab = Inr frame_ab" by (simp add: example_env_def)
  have c: "shrink_dtype ?E frame_ab = Inr frame_ab" by (simp add: example_env_def)
  have p: "expanduser ?E (path_join ''~/Documents'' ''out.csv'') = ''/home/user/Documents/out.csv''"
    by (simp add: run_defs)
  have d': "write_csv ?E frame_ab ''/home/user/Documents/out.csv'' = Inr csv_ab"
    by (simp add: example_env_def)
  have d: "write_csv ?E frame_ab (expanduser ?E (path_join ''~/Documents'' ''out.csv'')) = Inr csv_ab"
    unfolding p by (rule d')
  have e: "environ_HOME ?E = Some ''/home/user''" by (simp add: example_env_def)
  have f: "is_abs ''/home/user'' \<and> \<not> is_abs ''out.csv'' \<and> is_abs ''/home/user/Documents/out.csv''"
    by (simp add: is_abs_def startswith_def)
  have s: "save_dataframe_to_csv ?E records_ab ''out.csv'' ''~/Documents'' world0 =
        (Inr ''/home/user/Documents/out.csv'',
         \<lparr>stdout = [], files_written = [(''/home/user/Documents/out.csv'', csv_ab)]\<rparr>)"
    using save_returns_expanded_join [OF a b c d, of world0] unfolding p
    by (simp add: world0_def)
  have g: "\<not> is_abs ''reports'' \<and> \<not> startswith ''reports'' ''~''
      \<and> \<not> is_abs ''out.csv'' \<and> \<not> startswith ''out.csv'' ''~''"
    by (simp add: is_abs_def startswith_def)
  have q: "path_join ''reports'' ''out.csv'' = ''reports/out.csv''"
    by (simp add: path_join_def startswith_def endswith_def)
  have k': "write_csv ?E frame_ab ''reports/out.csv'' = Inr csv_ab"
    by (simp add: example_env_def)
  have x: "expanduser ?E (path_join ''reports'' ''out.csv'') = ''reports/out.csv''"
    by (simp add: run_defs)
  have k: "write_csv ?E frame_ab (expanduser ?E (path_join ''reports'' ''out.csv'')) = Inr csv_ab"
    unfolding x by (rule k')
  have r: "\<not> is_abs (expanduser ?E (path_join ''reports'' ''out.csv''))"
    using save_returns_expanded_join [OF a b c k, of world0] g by blast
  have s2: "save_dataframe_to_csv ?E records_ab ''out.csv'' ''reports'' world0 =
        (Inr ''reports/out.csv'',
         \<lparr>stdout = [], files_written = [(''reports/out.csv'', csv_ab)]\<rparr>)"
    using save_returns_expanded_join [OF a b c k, of world0] unfolding x
    by (simp add: world0_def)
  show ?thesis using a b c d' e f s g k' s2 r by simp
qed

text \<open>
  C8. The path returned is not always absolute: nothing in the writer resolves a
  relative \<open>output_dir\<close>.
\<close>

theorem relative_output_dir_counterexample:
  "(\<exists>stem. ''a.csv'' = stem @ ''.csv'')
   \<and> save_dataframe_to_csv (example_env [] []) records_ab ''a.csv'' ''out'' world0 =
        (Inr ''out/a.csv'', \<lparr>stdout = [], files_written = [(''out/a.csv'', csv_ab)]\<rparr>)
   \<and> \<not> is_abs ''out/a.csv''"
proof -
  have a: "\<exists>stem. ''a.csv'' = stem @ ''.csv''"
    unfolding endswith_iff [symmetric] by (simp add: endswith_def)
  have b: "save_dataframe_to_csv (example_env [] []) records_ab ''a.csv'' ''out'' world0 =
        (Inr ''out/a.csv'', \<lparr>stdout = [], files_written = [(''out/a.csv'', csv_ab)]\<rparr>)"
    by (simp add: run_defs)
  have c: "\<not> is_abs ''out/a.csv''" by (simp add: is_abs_def startswith_def)
  show ?thesis using a b c by simp
qed

text \<open>
  C10. The writer ends with one of the script's own \<open>ValueError\<close>s exactly when the
  file name does not end in the four characters \<open>.csv\<close>: the name \<open>.csv\<close> passes the
  check, and a name ending in \<open>.CSV\<close> is rejected.
\<close>

theorem csv_extension_check_exact:
  "((\<exists>m. fst (save_dataframe_to_csv E data filename output_dir w) = Inl (ValueError m))
      \<longleftrightarrow> \<not> (\<exists>stem. filename = stem @ ''.csv''))
   \<and> (\<forall>m. fst (save_dataframe_to_csv E data ''.csv'' output_dir w) \<noteq> Inl (ValueError m))
   \<and> save_dataframe_to_csv E data ''report.CSV'' output_dir w =
        (Inl (ValueError ''Filename must have a .csv extension.''), w)"
proof -
  have ok: "fst (save_dataframe_to_csv E data f output_dir w) \<noteq> Inl (ValueError m)"
    if "endswith f ''.csv''" for f m
    using that
    by (cases "pl_DataFrame E data" rule: from_lib.cases;
        cases "shrink_dtype E (projr (pl_DataFrame E data))" rule: from_lib.cases;
        cases "write_csv E (projr (shrink_dtype E (projr (pl_DataFrame E data))))
                 (expanduser E (path_join output_dir f))" rule: from_lib.cases)
       (simp_all add: save_dataframe_to_csv_def Let_def)
  have bad: "save_dataframe_to_csv E data f output_dir w =
        (Inl (ValueError ''Filename must have a .csv extension.''), w)"
    if "\<not> endswith f ''.csv''" for f
    using that by (simp add: save_dataframe_to_csv_def)
  have 1: "(\<exists>m. fst (save_dataframe_to_csv E data filename output_dir w) = Inl (ValueError m))
      \<longleftrightarrow> \<not> (\<exists>stem. filename = stem @ ''.csv'')"
    unfolding endswith_iff [symmetric] using ok [of filename] bad [of filename] by auto
  have 2: "\<forall>m. fst (save_dataframe_to_csv E data ''.csv'' output_dir w) \<noteq> Inl (ValueError m)"
    using ok [of "''.csv''"] by (simp add: endswith_def)
  have 3: "save_dataframe_to_csv E data ''report.CSV'' output_dir w =
        (Inl (ValueError ''Filename must have a .csv extension.''), w)"
    using bad [of "''report.CSV''"] by (simp add: endswith_def)
  show ?thesis using 1 2 3 by blast
qed

text \<open>
  The names \<open>out.csv\<close> and \<open>out.CSV\<close> in the example, through the theorem.
\<close>

theorem csv_extension_check_exact_witness:
  "(\<exists>stem. ''out.csv'' = stem @ ''.csv'')
   \<and> (\<forall>m. fst (save_dataframe_to_csv (example_env [] []) records_ab ''out.csv''
           ''~/Documents'' world0) \<noteq> Inl (ValueError m))
   \<and> (\<forall>m. fst (save_dataframe_to_csv (example_env [] []) records_ab ''.csv''
           ''~/Documents'' world0) \<noteq> Inl (ValueError m))
   \<and> save_dataframe_to_csv (example_env [] []) records_ab ''report.CSV'' ''~/Documents'' world0 =
        (Inl (ValueError ''Filename must have a .csv extension.''), world0)"
proof -
  have a: "\<exists>stem. ''out.csv'' = stem @ ''.csv''"
    unfolding endswith_iff [symmetric] by (simp add: endswith_def)
  have b: "\<forall>m. fst (save_dataframe_to_csv (example_env [] []) records_ab ''out.csv''
           ''~/Documents'' world0) \<noteq> Inl (ValueError m)"
    using a csv_extension_check_exact
      [of "example_env [] []" records_ab "''out.csv''" "''~/Documents''" world0]
    by blast
  have c: "(\<forall>m. fst (save_dataframe_to_csv (example_env [] []) records_ab ''.csv''
           ''~/Documents'' world0) \<noteq> Inl (ValueError m))
   \<and> save_dataframe_to_csv (example_env [] []) records_ab ''report.CSV'' ''~/Documents'' world0 =
        (Inl (ValueError ''Filename must have a .csv extension.''), world0)"
    using csv_extension_check_exact
      [of "example_env [] []" records_ab "''out.csv''" "''~/Documents''" world0]
    by blast
  show ?thesis using a b c by blast
qed


end
